theory Spec2Isabelle
  imports Main "HOL-Library.Word"
begin

section \<open>Data model\<close>

text \<open>
  The three scripts \<^verbatim>\<open>src/spl-token-manual.ts\<close>, \<^verbatim>\<open>src/spl-mint-manual.ts\<close> and the
  transfer-only script each carry their own textual copy of the instruction constructors.
  The copies agree statement by statement, so every constructor is embedded once.

  Numbers: the arguments typed \<^verbatim>\<open>number\<close> or \<^verbatim>\<open>bigint\<close> are modelled as \<^typ>\<open>int\<close>, that is,
  as integral values of any size. Offsets and lengths are \<^typ>\<open>nat\<close>.
\<close>

type_synonym byte = "8 word"

text \<open>A Node.js \<^verbatim>\<open>Buffer\<close>: a byte array of fixed length.\<close>

type_synonym Buffer = "byte list"

text \<open>
  Buffers are mutable objects. The heap lists the buffers allocated so far, oldest first;
  a reference to a buffer is its position in that list.
\<close>

type_synonym heap = "Buffer list"

text \<open>
  A \<^verbatim>\<open>PublicKey\<close> of the library holds an unsigned number below \<open>2 ^ 256\<close>;
  \<^verbatim>\<open>toBuffer()\<close> gives its 32 bytes, most significant first.
\<close>

type_synonym PublicKey = "256 word"

definition toBuffer :: "PublicKey \<Rightarrow> Buffer" where
  "toBuffer k = map (\<lambda>i. ucast (drop_bit (8 * (31 - i)) k)) [0..<32]"

datatype error =
    ERR_OUT_OF_RANGE_value    \<comment> \<open>RangeError: the value does not fit the written field\<close>
  | ERR_OUT_OF_RANGE_offset   \<comment> \<open>RangeError: the write does not fit the buffer\<close>
  | Non_base58_character
  | Invalid_public_key_input

record AccountMeta =
  pubkey :: PublicKey
  isSigner :: bool
  isWritable :: bool

text \<open>The field \<open>data\<close> refers to the payload buffer on the heap.\<close>

record TransactionInstruction =
  programId :: PublicKey
  keys :: "AccountMeta list"
  data :: nat

section \<open>Buffer primitives\<close>

text \<open>
  The writers of Node.js check the value against the range of the field first and the
  offset against the buffer second; either failure throws a \<^verbatim>\<open>RangeError\<close>. Multi-byte
  fields are stored least significant byte first.
\<close>

definition bind_result :: "error + 'a \<Rightarrow> ('a \<Rightarrow> error + 'b) \<Rightarrow> error + 'b" where
  "bind_result r f = (case r of Inl e \<Rightarrow> Inl e | Inr x \<Rightarrow> f x)"

definition le_bytes :: "nat \<Rightarrow> int \<Rightarrow> byte list" where
  "le_bytes n v = map (\<lambda>i. word_of_int (v div 256 ^ i)) [0..<n]"

definition splice :: "Buffer \<Rightarrow> nat \<Rightarrow> byte list \<Rightarrow> Buffer" where
  "splice b offset bs = take offset b @ bs @ drop (offset + length bs) b"

definition Buffer_alloc :: "nat \<Rightarrow> heap \<Rightarrow> nat \<times> heap" where
  "Buffer_alloc n h = (length h, h @ [replicate n 0])"

definition writeUInt8 :: "nat \<Rightarrow> int \<Rightarrow> nat \<Rightarrow> heap \<Rightarrow> error + heap" where
  "writeUInt8 buf v offset h =
     (if v > 255 \<or> v < 0 then Inl ERR_OUT_OF_RANGE_value
      else if length (h ! buf) < offset + 1 then Inl ERR_OUT_OF_RANGE_offset
      else Inr (h[buf := (h ! buf)[offset := word_of_int v]]))"

definition writeUInt32LE :: "nat \<Rightarrow> int \<Rightarrow> nat \<Rightarrow> heap \<Rightarrow> error + heap" where
  "writeUInt32LE buf v offset h =
     (if v > 4294967295 \<or> v < 0 then Inl ERR_OUT_OF_RANGE_value
      else if length (h ! buf) < offset + 4 then Inl ERR_OUT_OF_RANGE_offset
      else Inr (h[buf := splice (h ! buf) offset (le_bytes 4 v)]))"

definition writeBigUInt64LE :: "nat \<Rightarrow> int \<Rightarrow> nat \<Rightarrow> heap \<Rightarrow> error + heap" where
  "writeBigUInt64LE buf v offset h =
     (if v > 18446744073709551615 \<or> v < 0 then Inl ERR_OUT_OF_RANGE_value
      else if length (h ! buf) < offset + 8 then Inl ERR_OUT_OF_RANGE_offset
      else Inr (h[buf := splice (h ! buf) offset (le_bytes 8 v)]))"

text \<open>
  \<^verbatim>\<open>source.copy(target, targetStart)\<close> copies as many bytes of the source as fit into the
  target from \<open>targetStart\<close> on; it never throws for a start inside or at the end of the
  target and never changes the length of the target.
\<close>

definition Buffer_copy :: "Buffer \<Rightarrow> nat \<Rightarrow> nat \<Rightarrow> heap \<Rightarrow> heap" where
  "Buffer_copy source target targetStart h =
     h[target := splice (h ! target) targetStart
                   (take (length (h ! target) - targetStart) source)]"

text \<open>\<^verbatim>\<open>BigInt(x)\<close> of an integral number is that number.\<close>

definition BigInt :: "int \<Rightarrow> int" where
  "BigInt x = x"

text \<open>The reader matching \<^verbatim>\<open>writeBigUInt64LE\<close>, used to state that an amount is recovered.\<close>

definition readBigUInt64LE :: "Buffer \<Rightarrow> nat \<Rightarrow> int" where
  "readBigUInt64LE b offset =
     (\<Sum>i\<leftarrow>[0..<8]. uint (b ! (offset + i)) * 256 ^ i)"

section \<open>Identities written in base 58\<close>

text \<open>
  \<^verbatim>\<open>new PublicKey(string)\<close> decodes the string from base 58 and requires 32 bytes. A leading
  \<^verbatim>\<open>1\<close> stands for a leading zero byte; the other digits give the number in base 58.
\<close>

definition ALPHABET :: string where
  "ALPHABET = ''123456789ABCDEFGHJKLMNPQRSTUVWXYZabcdefghijkmnopqrstuvwxyz''"

fun index_of :: "char \<Rightarrow> string \<Rightarrow> nat option" where
  "index_of c [] = None"
| "index_of c (x # xs) = (if c = x then Some 0 else map_option Suc (index_of c xs))"

fun b58_number :: "nat \<Rightarrow> string \<Rightarrow> nat option" where
  "b58_number acc [] = Some acc"
| "b58_number acc (c # cs) =
     (case index_of c ALPHABET of
        None \<Rightarrow> None
      | Some d \<Rightarrow> b58_number (acc * 58 + d) cs)"

fun be_bytes :: "nat \<Rightarrow> byte list" where
  "be_bytes n = (if n = 0 then [] else be_bytes (n div 256) @ [of_nat (n mod 256)])"

declare be_bytes.simps [simp del]

definition bs58_decode :: "string \<Rightarrow> error + Buffer" where
  "bs58_decode s =
     (case b58_number 0 s of
        None \<Rightarrow> Inl Non_base58_character
      | Some n \<Rightarrow> Inr (replicate (length (takeWhile (\<lambda>c. c = CHR ''1'') s)) 0 @ be_bytes n))"

definition PublicKey_new :: "string \<Rightarrow> error + PublicKey" where
  "PublicKey_new s =
     (case bs58_decode s of
        Inl e \<Rightarrow> Inl e
      | Inr bs \<Rightarrow>
          if length bs \<noteq> 32 then Inl Invalid_public_key_input
          else Inr (of_nat (foldl (\<lambda>acc b. acc * 256 + unat b) 0 bs)))"

text \<open>
  The constants of the scripts. Each is given by its value; the lemmas
  \<open>TOKEN_PROGRAM_ID_source\<close>, \<open>SYSVAR_RENT_PUBKEY_source\<close> and
  \<open>SystemProgram_programId_source\<close> show that it is the key the source writes in base 58.
  \<^verbatim>\<open>SystemProgram.programId\<close> is the library's key \<^verbatim>\<open>11111111111111111111111111111111\<close>.
\<close>

definition TOKEN_PROGRAM_ID :: PublicKey where
  "TOKEN_PROGRAM_ID = 0x06ddf6e1d765a193d9cbe146ceeb79ac1cb485ed5f5b37913a8cf5857eff00a9"

definition SYSVAR_RENT_PUBKEY :: PublicKey where
  "SYSVAR_RENT_PUBKEY = 0x06a7d517192c5c51218cc94c3d4af17f58daee089ba1fd44e3dbd98a00000000"

definition SystemProgram_programId :: PublicKey where
  "SystemProgram_programId = 0"

definition TOKEN_INSTRUCTION_INITIALIZE_MINT :: int where
  "TOKEN_INSTRUCTION_INITIALIZE_MINT = 0"

definition TOKEN_INSTRUCTION_INITIALIZE_ACCOUNT :: int where
  "TOKEN_INSTRUCTION_INITIALIZE_ACCOUNT = 1"

definition TOKEN_INSTRUCTION_TRANSFER :: int where
  "TOKEN_INSTRUCTION_TRANSFER = 3"

definition TOKEN_INSTRUCTION_MINT_TO :: int where
  "TOKEN_INSTRUCTION_MINT_TO = 7"

section \<open>The instruction constructors\<close>

text \<open>
  Each constructor takes the heap and returns the instruction with the heap it leaves
  behind, or the error thrown by the first failing write.
\<close>

definition createAccountInstruction ::
  "PublicKey \<Rightarrow> PublicKey \<Rightarrow> int \<Rightarrow> int \<Rightarrow> PublicKey \<Rightarrow> heap
     \<Rightarrow> error + (TransactionInstruction \<times> heap)" where
  "createAccountInstruction fromPubkey newAccountPubkey lamports space owner h0 =
     (let CREATE_ACCOUNT_INDEX = 0;
          (data, h) = Buffer_alloc (4 + 8 + 8 + 32) h0;
          offset = 0
      in bind_result (writeUInt32LE data CREATE_ACCOUNT_INDEX offset h) (\<lambda>h.
         let offset = offset + 4
      in bind_result (writeBigUInt64LE data (BigInt lamports) offset h) (\<lambda>h.
         let offset = offset + 8
      in bind_result (writeBigUInt64LE data (BigInt space) offset h) (\<lambda>h.
         let offset = offset + 8;
             h = Buffer_copy (toBuffer owner) data offset h;
             offset = offset + 32
      in Inr (\<lparr>programId = SystemProgram_programId,
               keys = [\<lparr>pubkey = fromPubkey, isSigner = True, isWritable = True\<rparr>,
                       \<lparr>pubkey = newAccountPubkey, isSigner = True, isWritable = True\<rparr>],
               data = data\<rparr>, h)))))"

definition createInitializeMintInstruction ::
  "PublicKey \<Rightarrow> int \<Rightarrow> PublicKey \<Rightarrow> PublicKey option \<Rightarrow> heap
     \<Rightarrow> error + (TransactionInstruction \<times> heap)" where
  "createInitializeMintInstruction mintPubkey decimals mintAuthority freezeAuthority h0 =
     (let freezeAuthOption = (if freezeAuthority \<noteq> None then 1 else 0);
          dataLength = (if freezeAuthority \<noteq> None then 1 + 1 + 32 + 1 + 32 else 1 + 1 + 32 + 1);
          (data, h) = Buffer_alloc dataLength h0;
          offset = 0
      in bind_result (writeUInt8 data TOKEN_INSTRUCTION_INITIALIZE_MINT offset h) (\<lambda>h.
         let offset = offset + 1
      in bind_result (writeUInt8 data decimals offset h) (\<lambda>h.
         let offset = offset + 1;
             h = Buffer_copy (toBuffer mintAuthority) data offset h;
             offset = offset + 32
      in bind_result (writeUInt8 data freezeAuthOption offset h) (\<lambda>h.
         let offset = offset + 1;
             h = (case freezeAuthority of
                    Some freezeAuthority \<Rightarrow> Buffer_copy (toBuffer freezeAuthority) data offset h
                  | None \<Rightarrow> h)
      in Inr (\<lparr>programId = TOKEN_PROGRAM_ID,
               keys = [\<lparr>pubkey = mintPubkey, isSigner = False, isWritable = True\<rparr>,
                       \<lparr>pubkey = SYSVAR_RENT_PUBKEY, isSigner = False, isWritable = False\<rparr>],
               data = data\<rparr>, h)))))"

definition createInitializeAccountInstruction ::
  "PublicKey \<Rightarrow> PublicKey \<Rightarrow> PublicKey \<Rightarrow> heap
     \<Rightarrow> error + (TransactionInstruction \<times> heap)" where
  "createInitializeAccountInstruction tokenAccountPubkey mintPubkey ownerPubkey h0 =
     (let (data, h) = Buffer_alloc 1 h0
      in bind_result (writeUInt8 data TOKEN_INSTRUCTION_INITIALIZE_ACCOUNT 0 h) (\<lambda>h.
         Inr (\<lparr>programId = TOKEN_PROGRAM_ID,
               keys = [\<lparr>pubkey = tokenAccountPubkey, isSigner = False, isWritable = True\<rparr>,
                       \<lparr>pubkey = mintPubkey, isSigner = False, isWritable = False\<rparr>,
                       \<lparr>pubkey = ownerPubkey, isSigner = False, isWritable = False\<rparr>,
                       \<lparr>pubkey = SYSVAR_RENT_PUBKEY, isSigner = False, isWritable = False\<rparr>],
               data = data\<rparr>, h)))"

definition createMintToInstruction ::
  "PublicKey \<Rightarrow> PublicKey \<Rightarrow> PublicKey \<Rightarrow> int \<Rightarrow> heap
     \<Rightarrow> error + (TransactionInstruction \<times> heap)" where
  "createMintToInstruction mintPubkey destTokenAccountPubkey mintAuthorityPubkey amount h0 =
     (let (data, h) = Buffer_alloc (1 + 8) h0;
          offset = 0
      in bind_result (writeUInt8 data TOKEN_INSTRUCTION_MINT_TO offset h) (\<lambda>h.
         let offset = offset + 1
      in bind_result (writeBigUInt64LE data amount offset h) (\<lambda>h.
         let offset = offset + 8
      in Inr (\<lparr>programId = TOKEN_PROGRAM_ID,
               keys = [\<lparr>pubkey = mintPubkey, isSigner = False, isWritable = True\<rparr>,
                       \<lparr>pubkey = destTokenAccountPubkey, isSigner = False, isWritable = True\<rparr>,
                       \<lparr>pubkey = mintAuthorityPubkey, isSigner = True, isWritable = False\<rparr>],
               data = data\<rparr>, h))))"

definition createTransferInstruction ::
  "PublicKey \<Rightarrow> PublicKey \<Rightarrow> PublicKey \<Rightarrow> int \<Rightarrow> heap
     \<Rightarrow> error + (TransactionInstruction \<times> heap)" where
  "createTransferInstruction sourceTokenAccountPubkey destTokenAccountPubkey ownerPubkey amount h0 =
     (let (data, h) = Buffer_alloc (1 + 8) h0;
          offset = 0
      in bind_result (writeUInt8 data TOKEN_INSTRUCTION_TRANSFER offset h) (\<lambda>h.
         let offset = offset + 1
      in bind_result (writeBigUInt64LE data amount offset h) (\<lambda>h.
         let offset = offset + 8
      in Inr (\<lparr>programId = TOKEN_PROGRAM_ID,
               keys = [\<lparr>pubkey = sourceTokenAccountPubkey, isSigner = False, isWritable = True\<rparr>,
                       \<lparr>pubkey = destTokenAccountPubkey, isSigner = False, isWritable = True\<rparr>,
                       \<lparr>pubkey = ownerPubkey, isSigner = True, isWritable = False\<rparr>],
               data = data\<rparr>, h))))"

text \<open>The payload of a constructed instruction: the buffer its \<open>data\<close> field refers to.\<close>

definition payload :: "TransactionInstruction \<times> heap \<Rightarrow> Buffer" where
  "payload r = snd r ! data (fst r)"

section \<open>Comparing two calls\<close>

text \<open>
  Two outcomes of a constructor agree when both are the same error, or both are
  instructions with the same target program, the same account references and the same
  payload bytes. The payload buffers themselves are distinct objects, so the references
  are not compared.
\<close>

definition same_outcome ::
  "error + (TransactionInstruction \<times> heap) \<Rightarrow> error + (TransactionInstruction \<times> heap) \<Rightarrow> bool"
  where
  "same_outcome a b =
     (case a of
        Inl e \<Rightarrow> (case b of Inl e' \<Rightarrow> e = e' | Inr r' \<Rightarrow> False)
      | Inr r \<Rightarrow>
         (case b of
            Inl e' \<Rightarrow> False
          | Inr r' \<Rightarrow> programId (fst r) = programId (fst r') \<and> keys (fst r) = keys (fst r') \<and>
                     payload r = payload r'))"

text \<open>
  A call that returns an instruction has left every buffer of the heap as it was and has
  added one buffer, the payload, which the instruction refers to.
\<close>

definition allocates_only :: "heap \<Rightarrow> error + (TransactionInstruction \<times> heap) \<Rightarrow> bool" where
  "allocates_only h a =
     (case a of
        Inl e \<Rightarrow> True
      | Inr r \<Rightarrow> data (fst r) = length h \<and> snd r = h @ [payload r])"

section \<open>Batches\<close>

text \<open>
  Modelled from the spec: the required-signer set of a batch. The scripts hand their
  instructions to the library class \<^verbatim>\<open>Transaction\<close> (\<^verbatim>\<open>add\<close>, \<^verbatim>\<open>sign\<close>) and never compute
  the set themselves, and that class is not among the sources. The specification defines
  the set as the union, over the instructions of the batch, of the identities of the
  account references marked as signers, without duplicates.
\<close>

definition requiredSigners :: "TransactionInstruction list \<Rightarrow> PublicKey list" where
  "requiredSigners batch = remdups (map pubkey (filter isSigner (concat (map keys batch))))"

section \<open>What each constructor returns\<close>

lemma length_toBuffer: "length (toBuffer k) = 32" by (simp add: toBuffer_def)
lemma length_le_bytes: "length (le_bytes n v) = n" by (simp add: le_bytes_def)

text \<open>
  The writers on the buffer allocated last, when it is filled up to the offset and zero
  from there on: the situation of every write of the constructors.
\<close>

lemma splice_fill:
  "length xs = offset \<Longrightarrow> length bs \<le> n \<Longrightarrow>
   splice (xs @ replicate n 0) offset bs = xs @ bs @ replicate (n - length bs) 0"
  by (simp add: splice_def)

lemma writeUInt8_fill:
  "0 \<le> v \<Longrightarrow> v \<le> 255 \<Longrightarrow> length xs = offset \<Longrightarrow> 0 < n \<Longrightarrow>
   writeUInt8 (length h) v offset (h @ [xs @ replicate n 0]) =
     Inr (h @ [xs @ word_of_int v # replicate (n - 1) 0])"
  by (cases n) (auto simp add: writeUInt8_def list_update_append)

lemma writeUInt32LE_fill:
  "0 \<le> v \<Longrightarrow> v < 2 ^ 32 \<Longrightarrow> length xs = offset \<Longrightarrow> 4 \<le> n \<Longrightarrow>
   writeUInt32LE (length h) v offset (h @ [xs @ replicate n 0]) =
     Inr (h @ [xs @ le_bytes 4 v @ replicate (n - 4) 0])"
  by (simp add: writeUInt32LE_def splice_fill length_le_bytes)

lemma writeBigUInt64LE_fill:
  "0 \<le> v \<Longrightarrow> v < 2 ^ 64 \<Longrightarrow> length xs = offset \<Longrightarrow> 8 \<le> n \<Longrightarrow>
   writeBigUInt64LE (length h) v offset (h @ [xs @ replicate n 0]) =
     Inr (h @ [xs @ le_bytes 8 v @ replicate (n - 8) 0])"
  by (simp add: writeBigUInt64LE_def splice_fill length_le_bytes)

lemma Buffer_copy_fill:
  "length xs = offset \<Longrightarrow> length src \<le> n \<Longrightarrow>
   Buffer_copy src (length h) offset (h @ [xs @ replicate n 0]) =
     h @ [xs @ src @ replicate (n - length src) 0]"
  by (simp add: Buffer_copy_def splice_fill)

lemma writeUInt8_value_error:
  "v < 0 \<or> 255 < v \<Longrightarrow> writeUInt8 buf v offset h = Inl ERR_OUT_OF_RANGE_value"
  by (auto simp add: writeUInt8_def)

lemma writeBigUInt64LE_value_error:
  "v < 0 \<or> 2 ^ 64 \<le> v \<Longrightarrow> writeBigUInt64LE buf v offset h = Inl ERR_OUT_OF_RANGE_value"
  by (auto simp add: writeBigUInt64LE_def)

lemma createMintTo_result:
  assumes "0 \<le> amount" "amount < 2 ^ 64"
  shows "createMintToInstruction m d a amount h =
     Inr (\<lparr>programId = TOKEN_PROGRAM_ID,
           keys = [\<lparr>pubkey = m, isSigner = False, isWritable = True\<rparr>,
                   \<lparr>pubkey = d, isSigner = False, isWritable = True\<rparr>,
                   \<lparr>pubkey = a, isSigner = True, isWritable = False\<rparr>],
           data = length h\<rparr>, h @ [7 # le_bytes 8 amount])"
proof -
  have w1: "writeUInt8 (length h) 7 0 (h @ [replicate 9 0]) = Inr (h @ [[7] @ replicate 8 0])"
    using writeUInt8_fill [of 7 "[]" 0 9 h] by simp
  have w2: "writeBigUInt64LE (length h) amount 1 (h @ [[7] @ replicate 8 0]) =
      Inr (h @ [7 # le_bytes 8 amount])"
    using writeBigUInt64LE_fill [OF assms, of "[7]" 1 8 h] by simp
  show ?thesis
    using w1 w2
    by (simp add: createMintToInstruction_def TOKEN_INSTRUCTION_MINT_TO_def Buffer_alloc_def
        bind_result_def)
qed

lemma createMintTo_error:
  assumes "amount < 0 \<or> 2 ^ 64 \<le> amount"
  shows "createMintToInstruction m d a amount h = Inl ERR_OUT_OF_RANGE_value"
proof -
  have w1: "writeUInt8 (length h) 7 0 (h @ [replicate 9 0]) = Inr (h @ [[7] @ replicate 8 0])"
    using writeUInt8_fill [of 7 "[]" 0 9 h] by simp
  show ?thesis
    using w1
    by (simp add: createMintToInstruction_def TOKEN_INSTRUCTION_MINT_TO_def Buffer_alloc_def
        bind_result_def writeBigUInt64LE_value_error [OF assms])
qed


lemma createTransfer_result:
  assumes "0 \<le> amount" "amount < 2 ^ 64"
  shows "createTransferInstruction s d ow amount h =
     Inr (\<lparr>programId = TOKEN_PROGRAM_ID,
           keys = [\<lparr>pubkey = s, isSigner = False, isWritable = True\<rparr>,
                   \<lparr>pubkey = d, isSigner = False, isWritable = True\<rparr>,
                   \<lparr>pubkey = ow, isSigner = True, isWritable = False\<rparr>],
           data = length h\<rparr>, h @ [3 # le_bytes 8 amount])"
proof -
  have w1: "writeUInt8 (length h) 3 0 (h @ [replicate 9 0]) = Inr (h @ [[3] @ replicate 8 0])"
    using writeUInt8_fill [of 3 "[]" 0 9 h] by simp
  have w2: "writeBigUInt64LE (length h) amount 1 (h @ [[3] @ replicate 8 0]) =
      Inr (h @ [3 # le_bytes 8 amount])"
    using writeBigUInt64LE_fill [OF assms, of "[3]" 1 8 h] by simp
  show ?thesis
    using w1 w2
    by (simp add: createTransferInstruction_def TOKEN_INSTRUCTION_TRANSFER_def Buffer_alloc_def
        bind_result_def)
qed

lemma createTransfer_error:
  assumes "amount < 0 \<or> 2 ^ 64 \<le> amount"
  shows "createTransferInstruction s d ow amount h = Inl ERR_OUT_OF_RANGE_value"
proof -
  have w1: "writeUInt8 (length h) 3 0 (h @ [replicate 9 0]) = Inr (h @ [[3] @ replicate 8 0])"
    using writeUInt8_fill [of 3 "[]" 0 9 h] by simp
  show ?thesis
    using w1
    by (simp add: createTransferInstruction_def TOKEN_INSTRUCTION_TRANSFER_def Buffer_alloc_def
        bind_result_def writeBigUInt64LE_value_error [OF assms])
qed

lemma createInitializeAccount_result:
  "createInitializeAccountInstruction t m ow h =
     Inr (\<lparr>programId = TOKEN_PROGRAM_ID,
           keys = [\<lparr>pubkey = t, isSigner = False, isWritable = True\<rparr>,
                   \<lparr>pubkey = m, isSigner = False, isWritable = False\<rparr>,
                   \<lparr>pubkey = ow, isSigner = False, isWritable = False\<rparr>,
                   \<lparr>pubkey = SYSVAR_RENT_PUBKEY, isSigner = False, isWritable = False\<rparr>],
           data = length h\<rparr>, h @ [[1]])"
proof -
  have w1: "writeUInt8 (length h) 1 0 (h @ [replicate 1 0]) = Inr (h @ [[1]])"
    using writeUInt8_fill [of 1 "[]" 0 1 h] by simp
  show ?thesis
    using w1
    by (simp add: createInitializeAccountInstruction_def
        TOKEN_INSTRUCTION_INITIALIZE_ACCOUNT_def Buffer_alloc_def bind_result_def)
qed

lemma createAccount_result:
  assumes l: "0 \<le> lamports" "lamports < 2 ^ 64" and s: "0 \<le> space" "space < 2 ^ 64"
  shows "createAccountInstruction f n lamports space ow h =
     Inr (\<lparr>programId = SystemProgram_programId,
           keys = [\<lparr>pubkey = f, isSigner = True, isWritable = True\<rparr>,
                   \<lparr>pubkey = n, isSigner = True, isWritable = True\<rparr>],
           data = length h\<rparr>,
          h @ [le_bytes 4 0 @ le_bytes 8 lamports @ le_bytes 8 space @ toBuffer ow])"
proof -
  have w1: "writeUInt32LE (length h) 0 0 (h @ [replicate 52 0]) =
      Inr (h @ [le_bytes 4 0 @ replicate 48 0])"
    using writeUInt32LE_fill [of 0 "[]" 0 52 h] by simp
  have w2: "writeBigUInt64LE (length h) lamports 4 (h @ [le_bytes 4 0 @ replicate 48 0]) =
      Inr (h @ [le_bytes 4 0 @ le_bytes 8 lamports @ replicate 40 0])"
    using writeBigUInt64LE_fill [OF l, of "le_bytes 4 0" 4 48 h]
    by (simp add: length_le_bytes)
  have w3: "writeBigUInt64LE (length h) space 12
        (h @ [le_bytes 4 0 @ le_bytes 8 lamports @ replicate 40 0]) =
      Inr (h @ [le_bytes 4 0 @ le_bytes 8 lamports @ le_bytes 8 space @ replicate 32 0])"
    using writeBigUInt64LE_fill [OF s, of "le_bytes 4 0 @ le_bytes 8 lamports" 12 40 h]
    by (simp add: length_le_bytes)
  have c4: "Buffer_copy (toBuffer ow) (length h) 20
        (h @ [le_bytes 4 0 @ le_bytes 8 lamports @ le_bytes 8 space @ replicate 32 0]) =
      h @ [le_bytes 4 0 @ le_bytes 8 lamports @ le_bytes 8 space @ toBuffer ow]"
    using Buffer_copy_fill
      [of "le_bytes 4 0 @ le_bytes 8 lamports @ le_bytes 8 space" 20 "toBuffer ow" 32 h]
    by (simp add: length_le_bytes length_toBuffer)
  show ?thesis
    using w1 w2 w3 c4
    by (simp add: createAccountInstruction_def Buffer_alloc_def bind_result_def BigInt_def)
qed

lemma createAccount_error:
  assumes "lamports < 0 \<or> 2 ^ 64 \<le> lamports \<or> space < 0 \<or> 2 ^ 64 \<le> space"
  shows "createAccountInstruction f n lamports space ow h = Inl ERR_OUT_OF_RANGE_value"
proof -
  have w1: "writeUInt32LE (length h) 0 0 (h @ [replicate 52 0]) =
      Inr (h @ [le_bytes 4 0 @ replicate 48 0])"
    using writeUInt32LE_fill [of 0 "[]" 0 52 h] by simp
  show ?thesis
  proof (cases "lamports < 0 \<or> 2 ^ 64 \<le> lamports")
    case True
    show ?thesis
      using w1
      by (simp add: createAccountInstruction_def Buffer_alloc_def bind_result_def BigInt_def
          writeBigUInt64LE_value_error [OF True])
  next
    case False
    then have l: "0 \<le> lamports" "lamports < 2 ^ 64" by auto
    from False assms have bad: "space < 0 \<or> 2 ^ 64 \<le> space" by blast
    have w2: "writeBigUInt64LE (length h) lamports 4 (h @ [le_bytes 4 0 @ replicate 48 0]) =
        Inr (h @ [le_bytes 4 0 @ le_bytes 8 lamports @ replicate 40 0])"
      using writeBigUInt64LE_fill [OF l, of "le_bytes 4 0" 4 48 h]
      by (simp add: length_le_bytes)
    show ?thesis
      using w1 w2
      by (simp add: createAccountInstruction_def Buffer_alloc_def bind_result_def BigInt_def
          writeBigUInt64LE_value_error [OF bad])
  qed
qed

lemma createInitializeMint_result:
  assumes d: "0 \<le> decimals" "decimals \<le> 255"
  shows "createInitializeMintInstruction m decimals auth fr h =
     Inr (\<lparr>programId = TOKEN_PROGRAM_ID,
           keys = [\<lparr>pubkey = m, isSigner = False, isWritable = True\<rparr>,
                   \<lparr>pubkey = SYSVAR_RENT_PUBKEY, isSigner = False, isWritable = False\<rparr>],
           data = length h\<rparr>,
          h @ [[0, word_of_int decimals] @ toBuffer auth @
               (case fr of None \<Rightarrow> [0] | Some k \<Rightarrow> 1 # toBuffer k)])"
proof -
  have w1: "writeUInt8 (length h) 0 0 (h @ [replicate (Suc n) 0]) =
      Inr (h @ [[0] @ replicate n 0])" for n
    using writeUInt8_fill [of 0 "[]" 0 "Suc n" h] by simp
  have w2: "writeUInt8 (length h) decimals (0 + 1) (h @ [[0] @ replicate (Suc n) 0]) =
      Inr (h @ [[0, word_of_int decimals] @ replicate n 0])" for n
    using writeUInt8_fill [OF d, of "[0]" 1 "Suc n" h] by simp
  have c3: "Buffer_copy (toBuffer auth) (length h) (0 + 1 + 1)
        (h @ [[0, word_of_int decimals] @ replicate (32 + n) 0]) =
      h @ [[0, word_of_int decimals] @ toBuffer auth @ replicate n 0]" for n
    using Buffer_copy_fill [of "[0, word_of_int decimals]" "0 + 1 + 1" "toBuffer auth" "32 + n" h]
    by (simp add: length_toBuffer)
  have w4: "0 \<le> v \<Longrightarrow> v \<le> 255 \<Longrightarrow> writeUInt8 (length h) v (0 + 1 + 1 + 32)
        (h @ [[0, word_of_int decimals] @ toBuffer auth @ replicate (Suc n) 0]) =
      Inr (h @ [[0, word_of_int decimals] @ toBuffer auth @ word_of_int v # replicate n 0])"
    for v n
    using writeUInt8_fill [of v "[0, word_of_int decimals] @ toBuffer auth" 34 "Suc n" h]
    by (simp add: length_toBuffer)
  show ?thesis
  proof (cases fr)
    case None
    show ?thesis
      using w1 [of 34] w2 [of 33] c3 [of 1] w4 [of 0 0]
      by (simp add: None createInitializeMintInstruction_def
          TOKEN_INSTRUCTION_INITIALIZE_MINT_def Buffer_alloc_def bind_result_def)
  next
    case (Some k)
    have c5: "Buffer_copy (toBuffer k) (length h) (0 + 1 + 1 + 32 + 1)
          (h @ [[0, word_of_int decimals] @ toBuffer auth @ 1 # replicate 32 0]) =
        h @ [[0, word_of_int decimals] @ toBuffer auth @ 1 # toBuffer k]"
      using Buffer_copy_fill
        [of "[0, word_of_int decimals] @ toBuffer auth @ [1]" 35 "toBuffer k" 32 h]
      by (simp add: length_toBuffer)
    show ?thesis
      using w1 [of 66] w2 [of 65] c3 [of 33] w4 [of 1 32] c5
      by (simp add: Some createInitializeMintInstruction_def
          TOKEN_INSTRUCTION_INITIALIZE_MINT_def Buffer_alloc_def bind_result_def)
  qed
qed

lemma createInitializeMint_error:
  assumes "decimals < 0 \<or> 255 < decimals"
  shows "createInitializeMintInstruction m decimals auth fr h = Inl ERR_OUT_OF_RANGE_value"
proof -
  have w1: "writeUInt8 (length h) 0 0 (h @ [replicate (Suc n) 0]) =
      Inr (h @ [[0] @ replicate n 0])" for n
    using writeUInt8_fill [of 0 "[]" 0 "Suc n" h] by simp
  show ?thesis
    using w1 [of 34] w1 [of 66]
    by (simp add: createInitializeMintInstruction_def TOKEN_INSTRUCTION_INITIALIZE_MINT_def
        Buffer_alloc_def bind_result_def writeUInt8_value_error [OF assms])
qed

text \<open>Conversely, a constructor that returns had valid arguments and returned just that.\<close>

lemma createMintTo_Inr:
  assumes "createMintToInstruction m d a amount h = Inr r"
  shows "0 \<le> amount \<and> amount < 2 ^ 64 \<and>
     r = (\<lparr>programId = TOKEN_PROGRAM_ID,
           keys = [\<lparr>pubkey = m, isSigner = False, isWritable = True\<rparr>,
                   \<lparr>pubkey = d, isSigner = False, isWritable = True\<rparr>,
                   \<lparr>pubkey = a, isSigner = True, isWritable = False\<rparr>],
           data = length h\<rparr>, h @ [7 # le_bytes 8 amount])"
proof (cases "0 \<le> amount \<and> amount < 2 ^ 64")
  case True
  with assms createMintTo_result [of amount m d a h] show ?thesis by simp
next
  case False
  then have "amount < 0 \<or> 2 ^ 64 \<le> amount" by auto
  from createMintTo_error [OF this, of m d a h] assms show ?thesis by simp
qed

lemma createTransfer_Inr:
  assumes "createTransferInstruction s d ow amount h = Inr r"
  shows "0 \<le> amount \<and> amount < 2 ^ 64 \<and>
     r = (\<lparr>programId = TOKEN_PROGRAM_ID,
           keys = [\<lparr>pubkey = s, isSigner = False, isWritable = True\<rparr>,
                   \<lparr>pubkey = d, isSigner = False, isWritable = True\<rparr>,
                   \<lparr>pubkey = ow, isSigner = True, isWritable = False\<rparr>],
           data = length h\<rparr>, h @ [3 # le_bytes 8 amount])"
proof (cases "0 \<le> amount \<and> amount < 2 ^ 64")
  case True
  with assms createTransfer_result [of amount s d ow h] show ?thesis by simp
next
  case False
  then have "amount < 0 \<or> 2 ^ 64 \<le> amount" by auto
  from createTransfer_error [OF this, of s d ow h] assms show ?thesis by simp
qed

lemma createAccount_Inr:
  assumes "createAccountInstruction f n lamports space ow h = Inr r"
  shows "0 \<le> lamports \<and> lamports < 2 ^ 64 \<and> 0 \<le> space \<and> space < 2 ^ 64 \<and>
     r = (\<lparr>programId = SystemProgram_programId,
           keys = [\<lparr>pubkey = f, isSigner = True, isWritable = True\<rparr>,
                   \<lparr>pubkey = n, isSigner = True, isWritable = True\<rparr>],
           data = length h\<rparr>,
          h @ [le_bytes 4 0 @ le_bytes 8 lamports @ le_bytes 8 space @ toBuffer ow])"
proof (cases "0 \<le> lamports \<and> lamports < 2 ^ 64 \<and> 0 \<le> space \<and> space < 2 ^ 64")
  case True
  with assms createAccount_result [of lamports space f n ow h] show ?thesis by simp
next
  case False
  then have "lamports < 0 \<or> 2 ^ 64 \<le> lamports \<or> space < 0 \<or> 2 ^ 64 \<le> space" by auto
  from createAccount_error [OF this, of f n ow h] assms show ?thesis by simp
qed

lemma createInitializeMint_Inr:
  assumes "createInitializeMintInstruction m decimals auth fr h = Inr r"
  shows "0 \<le> decimals \<and> decimals \<le> 255 \<and>
     r = (\<lparr>programId = TOKEN_PROGRAM_ID,
           keys = [\<lparr>pubkey = m, isSigner = False, isWritable = True\<rparr>,
                   \<lparr>pubkey = SYSVAR_RENT_PUBKEY, isSigner = False, isWritable = False\<rparr>],
           data = length h\<rparr>,
          h @ [[0, word_of_int decimals] @ toBuffer auth @
               (case fr of None \<Rightarrow> [0] | Some k \<Rightarrow> 1 # toBuffer k)])"
proof (cases "0 \<le> decimals \<and> decimals \<le> 255")
  case True
  with assms createInitializeMint_result [of decimals m auth fr h] show ?thesis by simp
next
  case False
  then have "decimals < 0 \<or> 255 < decimals" by auto
  from createInitializeMint_error [OF this, of m auth fr h] assms show ?thesis by simp
qed

lemma payload_last:
  "payload (\<lparr>programId = p, keys = ks, data = length h\<rparr>, h @ [b]) = b"
  by (simp add: payload_def)

lemma le_bytes_4_0: "le_bytes 4 0 = [0, 0, 0, 0]"
  by (simp add: le_bytes_def upt_conv_Cons)

section \<open>The constants\<close>

lemma TOKEN_PROGRAM_ID_source:
  "PublicKey_new ''TokenkegQfeZyiNwAJbNbGKPFXCWuBvf9Ss623VQ5DA'' = Inr TOKEN_PROGRAM_ID"
  by (simp add: PublicKey_new_def bs58_decode_def ALPHABET_def be_bytes.simps
      TOKEN_PROGRAM_ID_def)

lemma SYSVAR_RENT_PUBKEY_source:
  "PublicKey_new ''SysvarRent111111111111111111111111111111111'' = Inr SYSVAR_RENT_PUBKEY"
  by (simp add: PublicKey_new_def bs58_decode_def ALPHABET_def be_bytes.simps
      SYSVAR_RENT_PUBKEY_def)

lemma SystemProgram_programId_source:
  "PublicKey_new ''11111111111111111111111111111111'' = Inr SystemProgram_programId"
  by (simp add: PublicKey_new_def bs58_decode_def ALPHABET_def be_bytes.simps
      SystemProgram_programId_def)

lemma programs_distinct: "TOKEN_PROGRAM_ID \<noteq> SystemProgram_programId"
  by (simp add: TOKEN_PROGRAM_ID_def SystemProgram_programId_def)

section \<open>Bytes and numbers\<close>

lemma uint_byte_of_int: "0 \<le> v \<Longrightarrow> v \<le> 255 \<Longrightarrow> uint (word_of_int v :: byte) = v"
  by (simp add: uint_word_of_int)

lemma nth_le_bytes: "i < n \<Longrightarrow> le_bytes n v ! i = word_of_int (v div 256 ^ i)"
  by (simp add: le_bytes_def)

lemma uint_nth_le_bytes: "i < n \<Longrightarrow> uint (le_bytes n v ! i) = v div 256 ^ i mod 256"
  by (simp add: nth_le_bytes uint_word_of_int)

lemma digits_sum:
  "(\<Sum>i\<leftarrow>[0..<n]. (v div 256 ^ i mod 256) * 256 ^ i) = (v::int) mod 256 ^ n"
proof (induction n)
  case 0
  show ?case by simp
next
  case (Suc n)
  have "v mod (256 ^ n * 256) = 256 ^ n * (v div 256 ^ n mod 256) + v mod 256 ^ n"
    by (rule zmod_zmult2_eq) simp
  with Suc show ?case by (simp add: mult.commute)
qed

lemma readBigUInt64LE_le_bytes:
  assumes "0 \<le> v" "v < 2 ^ 64"
  shows "readBigUInt64LE (tag # le_bytes 8 v) 1 = v"
proof -
  have "readBigUInt64LE (tag # le_bytes 8 v) 1 =
      (\<Sum>i\<leftarrow>[0..<8]. uint (le_bytes 8 v ! i) * 256 ^ i)"
    by (simp add: readBigUInt64LE_def)
  also have "\<dots> = (\<Sum>i\<leftarrow>[0..<8]. (v div 256 ^ i mod 256) * 256 ^ i)"
    by (rule arg_cong [where f = sum_list], rule map_cong) (simp_all add: uint_nth_le_bytes)
  also have "\<dots> = v mod 256 ^ 8"
    by (rule digits_sum)
  also have "\<dots> = v"
    using assms by simp
  finally show ?thesis .
qed

lemma map_update_same: "(map f xs)[i := f (xs ! i)] = map f xs"
  by (cases "i < length xs") (simp_all add: list_eq_iff_nth_eq nth_list_update)

lemma map_length_writeUInt8:
  "writeUInt8 buf v offset g = Inr g' \<Longrightarrow> map length g' = map length g"
  by (auto simp add: writeUInt8_def map_update map_update_same split: if_splits)

lemma length_splice_copy:
  "length (splice b targetStart (take (length b - targetStart) source)) = length b"
  by (simp add: splice_def)

lemma map_length_Buffer_copy: "map length (Buffer_copy source target targetStart g) = map length g"
  by (simp add: Buffer_copy_def map_update length_splice_copy map_update_same)

section \<open>Payload lengths and layouts\<close>

text \<open>
  Claim C1. Every constructor returns a payload of exactly the length of its layout.
  The account allocation returns 52 bytes: the tag in bytes 0 to 3, the lamports in bytes 4
  to 11, the space in bytes 12 to 19 and the 32 bytes of the owner from byte 20 on. The
  account initialization returns one byte. Minting and transfer return 9 bytes each: one
  tag byte and the amount in bytes 1 to 8. The mint initialization returns 35 bytes
  without a freeze authority and 67 with one. The constructors return for every valid
  input: lamports, space and amount in the unsigned 64-bit range, decimals a byte.
\<close>

theorem payload_length_matches_schema:
  "(0 \<le> lamports \<and> lamports < 2 ^ 64 \<and> 0 \<le> space \<and> space < 2 ^ 64 \<longrightarrow>
      (\<exists>r. createAccountInstruction payer newAccount lamports space owner h = Inr r))
   \<and> (\<forall>r. createAccountInstruction payer newAccount lamports space owner h = Inr r \<longrightarrow>
        length (payload r) = 52 \<and>
        take 4 (payload r) = le_bytes 4 0 \<and>
        take 8 (drop 4 (payload r)) = le_bytes 8 lamports \<and>
        take 8 (drop 12 (payload r)) = le_bytes 8 space \<and>
        drop 20 (payload r) = toBuffer owner \<and> length (toBuffer owner) = 32)
   \<and> (\<exists>r. createInitializeAccountInstruction tokenAccount mint walletOwner h = Inr r \<and>
        length (payload r) = 1)
   \<and> (0 \<le> amount \<and> amount < 2 ^ 64 \<longrightarrow>
        (\<exists>r. createMintToInstruction mint dest authority amount h = Inr r) \<and>
        (\<exists>r. createTransferInstruction src dest walletOwner amount h = Inr r))
   \<and> (\<forall>r. createMintToInstruction mint dest authority amount h = Inr r \<longrightarrow>
        length (payload r) = 9 \<and> drop 1 (payload r) = le_bytes 8 amount)
   \<and> (\<forall>r. createTransferInstruction src dest walletOwner amount h = Inr r \<longrightarrow>
        length (payload r) = 9 \<and> drop 1 (payload r) = le_bytes 8 amount)
   \<and> (0 \<le> decimals \<and> decimals \<le> 255 \<longrightarrow>
        (\<exists>r. createInitializeMintInstruction mint decimals authority freeze h = Inr r))
   \<and> (\<forall>r. createInitializeMintInstruction mint decimals authority freeze h = Inr r \<longrightarrow>
        length (payload r) = (if freeze = None then 35 else 67))"
proof -
  have a1: "0 \<le> lamports \<and> lamports < 2 ^ 64 \<and> 0 \<le> space \<and> space < 2 ^ 64 \<longrightarrow>
      (\<exists>r. createAccountInstruction payer newAccount lamports space owner h = Inr r)"
    by (simp add: createAccount_result)
  have a2: "\<forall>r. createAccountInstruction payer newAccount lamports space owner h = Inr r \<longrightarrow>
        length (payload r) = 52 \<and>
        take 4 (payload r) = le_bytes 4 0 \<and>
        take 8 (drop 4 (payload r)) = le_bytes 8 lamports \<and>
        take 8 (drop 12 (payload r)) = le_bytes 8 space \<and>
        drop 20 (payload r) = toBuffer owner \<and> length (toBuffer owner) = 32"
  proof (intro allI impI)
    fix r assume "createAccountInstruction payer newAccount lamports space owner h = Inr r"
    then have "payload r =
        le_bytes 4 0 @ le_bytes 8 lamports @ le_bytes 8 space @ toBuffer owner"
      by (auto dest!: createAccount_Inr simp add: payload_last)
    then show "length (payload r) = 52 \<and>
        take 4 (payload r) = le_bytes 4 0 \<and>
        take 8 (drop 4 (payload r)) = le_bytes 8 lamports \<and>
        take 8 (drop 12 (payload r)) = le_bytes 8 space \<and>
        drop 20 (payload r) = toBuffer owner \<and> length (toBuffer owner) = 32"
      by (simp add: length_le_bytes length_toBuffer)
  qed
  have b: "\<exists>r. createInitializeAccountInstruction tokenAccount mint walletOwner h = Inr r \<and>
        length (payload r) = 1"
    by (simp add: createInitializeAccount_result payload_last)
  have c1: "0 \<le> amount \<and> amount < 2 ^ 64 \<longrightarrow>
        (\<exists>r. createMintToInstruction mint dest authority amount h = Inr r) \<and>
        (\<exists>r. createTransferInstruction src dest walletOwner amount h = Inr r)"
    by (simp add: createMintTo_result createTransfer_result)
  have c2: "\<forall>r. createMintToInstruction mint dest authority amount h = Inr r \<longrightarrow>
        length (payload r) = 9 \<and> drop 1 (payload r) = le_bytes 8 amount"
    by (auto dest!: createMintTo_Inr simp add: payload_last length_le_bytes)
  have c3: "\<forall>r. createTransferInstruction src dest walletOwner amount h = Inr r \<longrightarrow>
        length (payload r) = 9 \<and> drop 1 (payload r) = le_bytes 8 amount"
    by (auto dest!: createTransfer_Inr simp add: payload_last length_le_bytes)
  have d1: "0 \<le> decimals \<and> decimals \<le> 255 \<longrightarrow>
        (\<exists>r. createInitializeMintInstruction mint decimals authority freeze h = Inr r)"
    by (simp add: createInitializeMint_result)
  have d2: "\<forall>r. createInitializeMintInstruction mint decimals authority freeze h = Inr r \<longrightarrow>
        length (payload r) = (if freeze = None then 35 else 67)"
    by (auto dest!: createInitializeMint_Inr simp add: payload_last length_toBuffer
        split: option.splits)
  from a1 a2 b c1 c2 c3 d1 d2 show ?thesis by blast
qed

text \<open>The instructions of the scripts, on the empty heap.\<close>

theorem payload_length_matches_schema_witness:
  "(\<exists>r. createAccountInstruction 1 2 1461600 82 TOKEN_PROGRAM_ID [] = Inr r \<and>
        length (payload r) = 52 \<and> drop 20 (payload r) = toBuffer TOKEN_PROGRAM_ID)
   \<and> (\<exists>r. createMintToInstruction 2 3 1 10000000000 [] = Inr r \<and> length (payload r) = 9)
   \<and> (\<exists>r. createTransferInstruction 3 3 1 10000000000 [] = Inr r \<and> length (payload r) = 9)
   \<and> (\<exists>r. createInitializeMintInstruction 2 9 1 None [] = Inr r \<and> length (payload r) = 35)
   \<and> (\<exists>r. createInitializeMintInstruction 2 9 1 (Some 1) [] = Inr r \<and>
        length (payload r) = 67)"
proof -
  have valid: "(0::int) \<le> 1461600 \<and> (1461600::int) < 2 ^ 64 \<and> (0::int) \<le> 82 \<and>
      (82::int) < 2 ^ 64 \<and> (0::int) \<le> 10000000000 \<and> (10000000000::int) < 2 ^ 64 \<and>
      (0::int) \<le> 9 \<and> (9::int) \<le> 255"
    by simp
  note t1 = payload_length_matches_schema [where lamports = 1461600 and space = 82
      and payer = 1 and newAccount = 2 and owner = TOKEN_PROGRAM_ID and h = "[]"
      and tokenAccount = 3 and mint = 2 and walletOwner = 1 and amount = 10000000000
      and dest = 3 and authority = 1 and src = 3 and decimals = 9 and freeze = None]
  note t2 = payload_length_matches_schema [where lamports = 1461600 and space = 82
      and payer = 1 and newAccount = 2 and owner = TOKEN_PROGRAM_ID and h = "[]"
      and tokenAccount = 3 and mint = 2 and walletOwner = 1 and amount = 10000000000
      and dest = 3 and authority = 1 and src = 3 and decimals = 9 and freeze = "Some 1"]
  have e: "(if Some (1::PublicKey) = None then 35 else 67) = (67::nat)"
       "(if (None::PublicKey option) = None then 35 else 67) = (35::nat)"
    by simp_all
  from valid t1 t2 show ?thesis unfolding e by blast
qed

section \<open>Account references and target programs\<close>

text \<open>
  Claim C2. The ordered account references of every constructed instruction are those of
  the schema, flags included, whatever identities the caller passes: the caller supplies
  identities only. Account allocation: payer and new account, both signer and writable.
  Mint initialization: the mint, writable and no signer, and the rent sysvar, read-only.
  Account initialization: the token account, writable, then mint, owner and rent sysvar,
  read-only. Minting: mint and destination, writable, then the authority, signer and
  read-only. Transfer: source and destination, writable, then the owner, signer and
  read-only.
\<close>

theorem account_references_fixed_by_constructor:
  "(\<forall>r. createAccountInstruction payer newAccount lamports space owner h = Inr r \<longrightarrow>
        keys (fst r) =
          [\<lparr>pubkey = payer, isSigner = True, isWritable = True\<rparr>,
           \<lparr>pubkey = newAccount, isSigner = True, isWritable = True\<rparr>])
   \<and> (\<forall>r. createInitializeMintInstruction mint decimals authority freeze h = Inr r \<longrightarrow>
        keys (fst r) =
          [\<lparr>pubkey = mint, isSigner = False, isWritable = True\<rparr>,
           \<lparr>pubkey = SYSVAR_RENT_PUBKEY, isSigner = False, isWritable = False\<rparr>])
   \<and> (\<exists>r. createInitializeAccountInstruction tokenAccount mint walletOwner h = Inr r \<and>
        keys (fst r) =
          [\<lparr>pubkey = tokenAccount, isSigner = False, isWritable = True\<rparr>,
           \<lparr>pubkey = mint, isSigner = False, isWritable = False\<rparr>,
           \<lparr>pubkey = walletOwner, isSigner = False, isWritable = False\<rparr>,
           \<lparr>pubkey = SYSVAR_RENT_PUBKEY, isSigner = False, isWritable = False\<rparr>])
   \<and> (\<forall>r. createMintToInstruction mint dest authority amount h = Inr r \<longrightarrow>
        keys (fst r) =
          [\<lparr>pubkey = mint, isSigner = False, isWritable = True\<rparr>,
           \<lparr>pubkey = dest, isSigner = False, isWritable = True\<rparr>,
           \<lparr>pubkey = authority, isSigner = True, isWritable = False\<rparr>])
   \<and> (\<forall>r. createTransferInstruction src dest walletOwner amount h = Inr r \<longrightarrow>
        keys (fst r) =
          [\<lparr>pubkey = src, isSigner = False, isWritable = True\<rparr>,
           \<lparr>pubkey = dest, isSigner = False, isWritable = True\<rparr>,
           \<lparr>pubkey = walletOwner, isSigner = True, isWritable = False\<rparr>])"
proof -
  have a: "\<forall>r. createAccountInstruction payer newAccount lamports space owner h = Inr r \<longrightarrow>
        keys (fst r) =
          [\<lparr>pubkey = payer, isSigner = True, isWritable = True\<rparr>,
           \<lparr>pubkey = newAccount, isSigner = True, isWritable = True\<rparr>]"
    by (auto dest!: createAccount_Inr)
  have b: "\<forall>r. createInitializeMintInstruction mint decimals authority freeze h = Inr r \<longrightarrow>
        keys (fst r) =
          [\<lparr>pubkey = mint, isSigner = False, isWritable = True\<rparr>,
           \<lparr>pubkey = SYSVAR_RENT_PUBKEY, isSigner = False, isWritable = False\<rparr>]"
    by (auto dest!: createInitializeMint_Inr)
  have c: "\<exists>r. createInitializeAccountInstruction tokenAccount mint walletOwner h = Inr r \<and>
        keys (fst r) =
          [\<lparr>pubkey = tokenAccount, isSigner = False, isWritable = True\<rparr>,
           \<lparr>pubkey = mint, isSigner = False, isWritable = False\<rparr>,
           \<lparr>pubkey = walletOwner, isSigner = False, isWritable = False\<rparr>,
           \<lparr>pubkey = SYSVAR_RENT_PUBKEY, isSigner = False, isWritable = False\<rparr>]"
    by (simp add: createInitializeAccount_result)
  have d: "\<forall>r. createMintToInstruction mint dest authority amount h = Inr r \<longrightarrow>
        keys (fst r) =
          [\<lparr>pubkey = mint, isSigner = False, isWritable = True\<rparr>,
           \<lparr>pubkey = dest, isSigner = False, isWritable = True\<rparr>,
           \<lparr>pubkey = authority, isSigner = True, isWritable = False\<rparr>]"
    by (auto dest!: createMintTo_Inr)
  have e: "\<forall>r. createTransferInstruction src dest walletOwner amount h = Inr r \<longrightarrow>
        keys (fst r) =
          [\<lparr>pubkey = src, isSigner = False, isWritable = True\<rparr>,
           \<lparr>pubkey = dest, isSigner = False, isWritable = True\<rparr>,
           \<lparr>pubkey = walletOwner, isSigner = True, isWritable = False\<rparr>]"
    by (auto dest!: createTransfer_Inr)
  from a b c d e show ?thesis by (intro conjI)
qed

theorem account_references_fixed_by_constructor_witness:
  "(\<exists>r. createAccountInstruction 1 2 1461600 82 TOKEN_PROGRAM_ID [] = Inr r \<and>
        keys (fst r) = [\<lparr>pubkey = 1, isSigner = True, isWritable = True\<rparr>,
                        \<lparr>pubkey = 2, isSigner = True, isWritable = True\<rparr>])
   \<and> (\<exists>r. createInitializeMintInstruction 2 9 1 None [] = Inr r \<and>
        keys (fst r) =
          [\<lparr>pubkey = 2, isSigner = False, isWritable = True\<rparr>,
           \<lparr>pubkey = SYSVAR_RENT_PUBKEY, isSigner = False, isWritable = False\<rparr>])
   \<and> (\<exists>r. createMintToInstruction 2 3 1 10000000000 [] = Inr r \<and>
        keys (fst r) = [\<lparr>pubkey = 2, isSigner = False, isWritable = True\<rparr>,
                        \<lparr>pubkey = 3, isSigner = False, isWritable = True\<rparr>,
                        \<lparr>pubkey = 1, isSigner = True, isWritable = False\<rparr>])
   \<and> (\<exists>r. createTransferInstruction 3 3 1 10000000000 [] = Inr r \<and>
        keys (fst r) = [\<lparr>pubkey = 3, isSigner = False, isWritable = True\<rparr>,
                        \<lparr>pubkey = 3, isSigner = False, isWritable = True\<rparr>,
                        \<lparr>pubkey = 1, isSigner = True, isWritable = False\<rparr>])"
proof -
  have r1: "\<exists>r. createAccountInstruction 1 2 1461600 82 TOKEN_PROGRAM_ID [] = Inr r"
    by (simp add: createAccount_result)
  have r2: "\<exists>r. createInitializeMintInstruction 2 9 1 None [] = Inr r"
    by (simp add: createInitializeMint_result)
  have r3: "\<exists>r. createMintToInstruction 2 3 1 10000000000 [] = Inr r"
    by (simp add: createMintTo_result)
  have r4: "\<exists>r. createTransferInstruction 3 3 1 10000000000 [] = Inr r"
    by (simp add: createTransfer_result)
  note t = account_references_fixed_by_constructor [where lamports = 1461600 and space = 82
      and payer = 1 and newAccount = 2 and owner = TOKEN_PROGRAM_ID and h = "[]"
      and tokenAccount = 3 and mint = 2 and walletOwner = 1 and amount = 10000000000
      and dest = 3 and authority = 1 and src = 3 and decimals = 9 and freeze = None]
  from r1 r2 r3 r4 t show ?thesis by blast
qed

text \<open>
  Claim C6. The account allocation always targets the system program, the four token
  instructions always target the token program, and the two identities differ.
\<close>

theorem target_program_per_operation:
  "(\<forall>r. createAccountInstruction payer newAccount lamports space owner h = Inr r \<longrightarrow>
        programId (fst r) = SystemProgram_programId)
   \<and> (\<forall>r. createInitializeMintInstruction mint decimals authority freeze h = Inr r \<longrightarrow>
        programId (fst r) = TOKEN_PROGRAM_ID)
   \<and> (\<exists>r. createInitializeAccountInstruction tokenAccount mint walletOwner h = Inr r \<and>
        programId (fst r) = TOKEN_PROGRAM_ID)
   \<and> (\<forall>r. createMintToInstruction mint dest authority amount h = Inr r \<longrightarrow>
        programId (fst r) = TOKEN_PROGRAM_ID)
   \<and> (\<forall>r. createTransferInstruction src dest walletOwner amount h = Inr r \<longrightarrow>
        programId (fst r) = TOKEN_PROGRAM_ID)
   \<and> TOKEN_PROGRAM_ID \<noteq> SystemProgram_programId"
proof -
  have a: "\<forall>r. createAccountInstruction payer newAccount lamports space owner h = Inr r \<longrightarrow>
        programId (fst r) = SystemProgram_programId"
    by (auto dest!: createAccount_Inr)
  have b: "\<forall>r. createInitializeMintInstruction mint decimals authority freeze h = Inr r \<longrightarrow>
        programId (fst r) = TOKEN_PROGRAM_ID"
    by (auto dest!: createInitializeMint_Inr)
  have c: "\<exists>r. createInitializeAccountInstruction tokenAccount mint walletOwner h = Inr r \<and>
        programId (fst r) = TOKEN_PROGRAM_ID"
    by (simp add: createInitializeAccount_result)
  have d: "\<forall>r. createMintToInstruction mint dest authority amount h = Inr r \<longrightarrow>
        programId (fst r) = TOKEN_PROGRAM_ID"
    by (auto dest!: createMintTo_Inr)
  have e: "\<forall>r. createTransferInstruction src dest walletOwner amount h = Inr r \<longrightarrow>
        programId (fst r) = TOKEN_PROGRAM_ID"
    by (auto dest!: createTransfer_Inr)
  from a b c d e programs_distinct show ?thesis by blast
qed

theorem target_program_per_operation_witness:
  "(\<exists>r. createAccountInstruction 1 2 1461600 82 TOKEN_PROGRAM_ID [] = Inr r \<and>
        programId (fst r) = SystemProgram_programId \<and> programId (fst r) \<noteq> TOKEN_PROGRAM_ID)
   \<and> (\<exists>r. createInitializeMintInstruction 2 9 1 None [] = Inr r \<and>
        programId (fst r) = TOKEN_PROGRAM_ID)
   \<and> (\<exists>r. createMintToInstruction 2 3 1 10000000000 [] = Inr r \<and>
        programId (fst r) = TOKEN_PROGRAM_ID)
   \<and> (\<exists>r. createTransferInstruction 3 3 1 10000000000 [] = Inr r \<and>
        programId (fst r) = TOKEN_PROGRAM_ID)"
proof -
  have r1: "\<exists>r. createAccountInstruction 1 2 1461600 82 TOKEN_PROGRAM_ID [] = Inr r"
    by (simp add: createAccount_result)
  have r2: "\<exists>r. createInitializeMintInstruction 2 9 1 None [] = Inr r"
    by (simp add: createInitializeMint_result)
  have r3: "\<exists>r. createMintToInstruction 2 3 1 10000000000 [] = Inr r"
    by (simp add: createMintTo_result)
  have r4: "\<exists>r. createTransferInstruction 3 3 1 10000000000 [] = Inr r"
    by (simp add: createTransfer_result)
  note t = target_program_per_operation [where lamports = 1461600 and space = 82
      and payer = 1 and newAccount = 2 and owner = TOKEN_PROGRAM_ID and h = "[]"
      and tokenAccount = 3 and mint = 2 and walletOwner = 1 and amount = 10000000000
      and dest = 3 and authority = 1 and src = 3 and decimals = 9 and freeze = None]
  from r1 r2 r3 r4 t show ?thesis by metis
qed

section \<open>Amounts, decimals and tags\<close>

text \<open>
  Claim C4. For minting and transfer the amount occupies bytes 1 to 8 of the payload, least
  significant byte first. The amounts 0 and \<open>2 ^ 64 - 1\<close> are encoded and read back
  unchanged, as is every amount between them. A negative amount such as \<open>- 1\<close>, or an
  amount of \<open>2 ^ 64\<close> or more, makes the constructor fail with the range error of the
  writer; nothing is wrapped or truncated.
\<close>

theorem amount_is_unsigned_64_bit:
  "(0 \<le> amount \<and> amount < 2 ^ 64 \<longrightarrow>
      (\<exists>r. createMintToInstruction mint dest authority amount h = Inr r \<and>
           length (payload r) = 9 \<and>
           (\<forall>i<8. uint (payload r ! (1 + i)) = amount div 256 ^ i mod 256) \<and>
           readBigUInt64LE (payload r) 1 = amount) \<and>
      (\<exists>r. createTransferInstruction src dest walletOwner amount h = Inr r \<and>
           length (payload r) = 9 \<and>
           (\<forall>i<8. uint (payload r ! (1 + i)) = amount div 256 ^ i mod 256) \<and>
           readBigUInt64LE (payload r) 1 = amount))
   \<and> (amount < 0 \<or> 2 ^ 64 \<le> amount \<longrightarrow>
        createMintToInstruction mint dest authority amount h = Inl ERR_OUT_OF_RANGE_value \<and>
        createTransferInstruction src dest walletOwner amount h = Inl ERR_OUT_OF_RANGE_value)"
proof -
  have ok: "length (tag # le_bytes 8 amount) = 9 \<and>
      (\<forall>i<8. uint ((tag # le_bytes 8 amount) ! (1 + i)) = amount div 256 ^ i mod 256)" for tag
    by (simp add: length_le_bytes uint_nth_le_bytes)
  have a: "0 \<le> amount \<and> amount < 2 ^ 64 \<longrightarrow>
      (\<exists>r. createMintToInstruction mint dest authority amount h = Inr r \<and>
           length (payload r) = 9 \<and>
           (\<forall>i<8. uint (payload r ! (1 + i)) = amount div 256 ^ i mod 256) \<and>
           readBigUInt64LE (payload r) 1 = amount)"
    using ok [of 7] readBigUInt64LE_le_bytes [of amount 7]
    by (simp add: createMintTo_result payload_last)
  have b: "0 \<le> amount \<and> amount < 2 ^ 64 \<longrightarrow>
      (\<exists>r. createTransferInstruction src dest walletOwner amount h = Inr r \<and>
           length (payload r) = 9 \<and>
           (\<forall>i<8. uint (payload r ! (1 + i)) = amount div 256 ^ i mod 256) \<and>
           readBigUInt64LE (payload r) 1 = amount)"
    using ok [of 3] readBigUInt64LE_le_bytes [of amount 3]
    by (simp add: createTransfer_result payload_last)
  have c: "amount < 0 \<or> 2 ^ 64 \<le> amount \<longrightarrow>
        createMintToInstruction mint dest authority amount h = Inl ERR_OUT_OF_RANGE_value \<and>
        createTransferInstruction src dest walletOwner amount h = Inl ERR_OUT_OF_RANGE_value"
    using createMintTo_error [of amount mint dest authority h]
      createTransfer_error [of amount src dest walletOwner h]
    by blast
  from a b c show ?thesis by blast
qed

theorem amount_is_unsigned_64_bit_witness:
  "(\<exists>r. createMintToInstruction 2 3 1 0 [] = Inr r \<and> readBigUInt64LE (payload r) 1 = 0)
   \<and> (\<exists>r. createTransferInstruction 3 3 1 0 [] = Inr r \<and> readBigUInt64LE (payload r) 1 = 0)
   \<and> (\<exists>r. createMintToInstruction 2 3 1 18446744073709551615 [] = Inr r \<and>
        readBigUInt64LE (payload r) 1 = 18446744073709551615)
   \<and> (\<exists>r. createTransferInstruction 3 3 1 18446744073709551615 [] = Inr r \<and>
        readBigUInt64LE (payload r) 1 = 18446744073709551615)
   \<and> createMintToInstruction 2 3 1 (- 1) [] = Inl ERR_OUT_OF_RANGE_value
   \<and> createTransferInstruction 3 3 1 (- 1) [] = Inl ERR_OUT_OF_RANGE_value
   \<and> createMintToInstruction 2 3 1 18446744073709551616 [] = Inl ERR_OUT_OF_RANGE_value
   \<and> createTransferInstruction 3 3 1 18446744073709551616 [] = Inl ERR_OUT_OF_RANGE_value"
proof -
  note t = amount_is_unsigned_64_bit [where mint = 2 and dest = 3 and authority = 1
      and src = 3 and walletOwner = 1 and h = "[]"]
  have lo: "(\<exists>r. createMintToInstruction 2 3 1 0 [] = Inr r \<and>
        readBigUInt64LE (payload r) 1 = 0) \<and>
      (\<exists>r. createTransferInstruction 3 3 1 0 [] = Inr r \<and>
        readBigUInt64LE (payload r) 1 = 0)"
  proof -
    have "(0::int) \<le> 0 \<and> (0::int) < 2 ^ 64" by simp
    with t [where amount = 0, THEN conjunct1] show ?thesis by blast
  qed
  have hi: "(\<exists>r. createMintToInstruction 2 3 1 18446744073709551615 [] = Inr r \<and>
        readBigUInt64LE (payload r) 1 = 18446744073709551615) \<and>
      (\<exists>r. createTransferInstruction 3 3 1 18446744073709551615 [] = Inr r \<and>
        readBigUInt64LE (payload r) 1 = 18446744073709551615)"
  proof -
    have "(0::int) \<le> 18446744073709551615 \<and> (18446744073709551615::int) < 2 ^ 64" by simp
    with t [where amount = 18446744073709551615, THEN conjunct1] show ?thesis by blast
  qed
  have neg: "createMintToInstruction 2 3 1 (- 1) [] = Inl ERR_OUT_OF_RANGE_value \<and>
      createTransferInstruction 3 3 1 (- 1) [] = Inl ERR_OUT_OF_RANGE_value"
  proof -
    have "(- 1::int) < 0 \<or> 2 ^ 64 \<le> (- 1::int)" by simp
    with t [where amount = "- 1", THEN conjunct2] show ?thesis by (rule mp)
  qed
  have big: "createMintToInstruction 2 3 1 18446744073709551616 [] =
        Inl ERR_OUT_OF_RANGE_value \<and>
      createTransferInstruction 3 3 1 18446744073709551616 [] = Inl ERR_OUT_OF_RANGE_value"
  proof -
    have "(18446744073709551616::int) < 0 \<or> 2 ^ 64 \<le> (18446744073709551616::int)" by simp
    with t [where amount = 18446744073709551616, THEN conjunct2] show ?thesis
      by (rule mp)
  qed
  from lo hi neg big show ?thesis by (intro conjI) (erule conjunct1 conjunct2)+
qed

text \<open>
  Claim C8. For every decimals value from 0 to 255 the mint initialization succeeds and
  writes that value at offset 1 of the payload; no narrower range is enforced.
\<close>

theorem decimals_any_byte_accepted:
  "0 \<le> decimals \<and> decimals \<le> 255 \<longrightarrow>
     (\<exists>r. createInitializeMintInstruction mint decimals authority freeze h = Inr r \<and>
          uint (payload r ! 1) = decimals)"
  by (simp add: createInitializeMint_result payload_last uint_byte_of_int)

theorem decimals_any_byte_accepted_witness:
  "(\<exists>r. createInitializeMintInstruction 2 0 1 None [] = Inr r \<and> uint (payload r ! 1) = 0)
   \<and> (\<exists>r. createInitializeMintInstruction 2 9 1 None [] = Inr r \<and> uint (payload r ! 1) = 9)
   \<and> (\<exists>r. createInitializeMintInstruction 2 255 1 (Some 1) [] = Inr r \<and>
        uint (payload r ! 1) = 255)"
proof -
  have v: "(0::int) \<le> 0 \<and> (0::int) \<le> 255" "(0::int) \<le> 9 \<and> (9::int) \<le> 255"
      "(0::int) \<le> 255 \<and> (255::int) \<le> 255"
    by simp_all
  from v decimals_any_byte_accepted [of 0 2 1 None "[]"]
    decimals_any_byte_accepted [of 9 2 1 None "[]"]
    decimals_any_byte_accepted [of 255 2 1 "Some 1" "[]"]
  show ?thesis by blast
qed

text \<open>
  Claim C10. The tags: the account allocation writes 0 in the four bytes at offsets 0 to 3;
  the token instructions write one byte at offset 0, which is 0 for the mint
  initialization, 1 for the account initialization, 7 for minting and 3 for transfer. The
  payloads of minting and transfer for the same amount differ in that first byte only.
\<close>

theorem opcode_tags:
  "(\<forall>r. createAccountInstruction payer newAccount lamports space owner h = Inr r \<longrightarrow>
        take 4 (payload r) = [0, 0, 0, 0])
   \<and> (\<forall>r. createInitializeMintInstruction mint decimals authority freeze h = Inr r \<longrightarrow>
        payload r ! 0 = 0)
   \<and> (\<exists>r. createInitializeAccountInstruction tokenAccount mint walletOwner h = Inr r \<and>
        payload r ! 0 = 1)
   \<and> (\<forall>r. createMintToInstruction mint dest authority amount h = Inr r \<longrightarrow>
        payload r ! 0 = 7)
   \<and> (\<forall>r. createTransferInstruction src dest' walletOwner amount h' = Inr r \<longrightarrow>
        payload r ! 0 = 3)
   \<and> (\<forall>r r'. createMintToInstruction mint dest authority amount h = Inr r \<and>
        createTransferInstruction src dest' walletOwner amount h' = Inr r' \<longrightarrow>
        length (payload r) = length (payload r') \<and> tl (payload r) = tl (payload r') \<and>
        payload r ! 0 \<noteq> payload r' ! 0)"
proof -
  have a: "\<forall>r. createAccountInstruction payer newAccount lamports space owner h = Inr r \<longrightarrow>
        take 4 (payload r) = [0, 0, 0, 0]"
    by (auto dest!: createAccount_Inr simp add: payload_last le_bytes_4_0)
  have b: "\<forall>r. createInitializeMintInstruction mint decimals authority freeze h = Inr r \<longrightarrow>
        payload r ! 0 = 0"
    by (auto dest!: createInitializeMint_Inr simp add: payload_last)
  have c: "\<exists>r. createInitializeAccountInstruction tokenAccount mint walletOwner h = Inr r \<and>
        payload r ! 0 = 1"
    by (simp add: createInitializeAccount_result payload_last)
  have d: "\<forall>r. createMintToInstruction mint dest authority amount h = Inr r \<longrightarrow>
        payload r ! 0 = 7"
    by (auto dest!: createMintTo_Inr simp add: payload_last)
  have e: "\<forall>r. createTransferInstruction src dest' walletOwner amount h' = Inr r \<longrightarrow>
        payload r ! 0 = 3"
    by (auto dest!: createTransfer_Inr simp add: payload_last)
  have f: "\<forall>r r'. createMintToInstruction mint dest authority amount h = Inr r \<and>
        createTransferInstruction src dest' walletOwner amount h' = Inr r' \<longrightarrow>
        length (payload r) = length (payload r') \<and> tl (payload r) = tl (payload r') \<and>
        payload r ! 0 \<noteq> payload r' ! 0"
    by (auto dest!: createMintTo_Inr createTransfer_Inr simp add: payload_last)
  from a b c d e f show ?thesis by blast
qed

theorem opcode_tags_witness:
  "(\<exists>r. createAccountInstruction 1 2 1461600 82 TOKEN_PROGRAM_ID [] = Inr r \<and>
        take 4 (payload r) = [0, 0, 0, 0])
   \<and> (\<exists>r. createInitializeMintInstruction 2 9 1 None [] = Inr r \<and> payload r ! 0 = 0)
   \<and> (\<exists>r r'. createMintToInstruction 2 3 1 10000000000 [] = Inr r \<and>
        createTransferInstruction 3 4 1 10000000000 [[1]] = Inr r' \<and>
        payload r ! 0 = 7 \<and> payload r' ! 0 = 3 \<and> tl (payload r) = tl (payload r'))"
proof -
  note t = opcode_tags [where lamports = 1461600 and space = 82
      and payer = 1 and newAccount = 2 and owner = TOKEN_PROGRAM_ID and h = "[]"
      and h' = "[[1]]" and tokenAccount = 3 and mint = 2 and walletOwner = 1
      and amount = 10000000000 and dest = 3 and dest' = 4 and authority = 1 and src = 3
      and decimals = 9 and freeze = None]
  obtain r1 where r1: "createAccountInstruction 1 2 1461600 82 TOKEN_PROGRAM_ID [] = Inr r1"
    by (simp add: createAccount_result)
  obtain r2 where r2: "createInitializeMintInstruction 2 9 1 None [] = Inr r2"
    by (simp add: createInitializeMint_result)
  obtain r3 where r3: "createMintToInstruction 2 3 1 10000000000 [] = Inr r3"
    by (simp add: createMintTo_result)
  obtain r4 where r4: "createTransferInstruction 3 4 1 10000000000 [[1]] = Inr r4"
    by (simp add: createTransfer_result)
  from r1 t [THEN conjunct1] have a: "take 4 (payload r1) = [0, 0, 0, 0]"
    by blast
  from r2 t [THEN conjunct2, THEN conjunct1] have b: "payload r2 ! 0 = 0"
    by blast
  from r3 t [THEN conjunct2, THEN conjunct2, THEN conjunct2, THEN conjunct1]
  have c: "payload r3 ! 0 = 7"
    by blast
  from r4 t [THEN conjunct2, THEN conjunct2, THEN conjunct2, THEN conjunct2, THEN conjunct1]
  have d: "payload r4 ! 0 = 3"
    by blast
  from r3 r4 t [THEN conjunct2, THEN conjunct2, THEN conjunct2, THEN conjunct2, THEN conjunct2]
  have e: "tl (payload r3) = tl (payload r4)"
    by blast
  from r1 r2 r3 r4 a b c d e show ?thesis by blast
qed

section \<open>The optional freeze authority\<close>

text \<open>
  Claim C3. For a mint initialization with given mint, decimals and mint authority, the
  payload with a freeze authority is exactly 32 bytes longer than the payload without.
  The byte at offset 34 is 1 when the authority is present and 0 when it is absent; up
  to that byte the two payloads agree, and the 32 bytes of the authority follow it
  directly. The buffer has its final length from the allocation on: the payload buffer of
  a returned instruction is the buffer of one allocation of 35 or 67 bytes, decided by
  the presence of the authority, on the heap the constructor was called with; the heap
  it leaves has the buffer lengths of the heap right after that allocation, and the
  buffers that existed before are unchanged. In general an allocation gives a buffer of
  the requested length, and neither writer used by the constructor changes the length
  of any buffer.
\<close>

theorem freeze_authority_option:
  "(0 \<le> decimals \<and> decimals \<le> 255 \<longrightarrow>
      (\<exists>r r'. createInitializeMintInstruction mint decimals authority None h = Inr r \<and>
         createInitializeMintInstruction mint decimals authority (Some freeze) h' = Inr r' \<and>
         length (payload r) = 35 \<and>
         length (payload r') = length (payload r) + 32 \<and>
         payload r ! 34 = 0 \<and> payload r' ! 34 = 1 \<and>
         take 34 (payload r') = take 34 (payload r) \<and>
         drop 35 (payload r') = toBuffer freeze \<and> length (toBuffer freeze) = 32))
   \<and> (\<forall>n g. length (snd (Buffer_alloc n g) ! fst (Buffer_alloc n g)) = n)
   \<and> (\<forall>buf v offset g g'. writeUInt8 buf v offset g = Inr g' \<longrightarrow> map length g' = map length g)
   \<and> (\<forall>source target targetStart g.
        map length (Buffer_copy source target targetStart g) = map length g)
   \<and> (\<forall>fr r. createInitializeMintInstruction mint decimals authority fr h = Inr r \<longrightarrow>
        data (fst r) = fst (Buffer_alloc (if fr = None then 35 else 67) h) \<and>
        map length (snd r) =
          map length (snd (Buffer_alloc (if fr = None then 35 else 67) h)) \<and>
        take (length h) (snd r) = h)"
proof -
  let ?p = "[0, word_of_int decimals] @ toBuffer authority"
  have l: "length ?p = 34" by (simp add: length_toBuffer)
  have p0: "length (?p @ [0]) = 35 \<and> (?p @ [0]) ! 34 = 0"
    using l by (simp add: nth_append del: append.simps)
  have p1: "length (?p @ 1 # toBuffer freeze) = length (?p @ [0]) + 32 \<and>
      (?p @ 1 # toBuffer freeze) ! 34 = 1 \<and>
      take 34 (?p @ 1 # toBuffer freeze) = take 34 (?p @ [0]) \<and>
      drop 35 (?p @ 1 # toBuffer freeze) = toBuffer freeze"
    using l by (simp add: nth_append length_toBuffer del: append.simps)
  have a: "0 \<le> decimals \<and> decimals \<le> 255 \<longrightarrow>
      (\<exists>r r'. createInitializeMintInstruction mint decimals authority None h = Inr r \<and>
         createInitializeMintInstruction mint decimals authority (Some freeze) h' = Inr r' \<and>
         length (payload r) = 35 \<and>
         length (payload r') = length (payload r) + 32 \<and>
         payload r ! 34 = 0 \<and> payload r' ! 34 = 1 \<and>
         take 34 (payload r') = take 34 (payload r) \<and>
         drop 35 (payload r') = toBuffer freeze \<and> length (toBuffer freeze) = 32)"
  proof
    assume d: "0 \<le> decimals \<and> decimals \<le> 255"
    let ?ix = "\<lambda>g. \<lparr>programId = TOKEN_PROGRAM_ID,
           keys = [\<lparr>pubkey = mint, isSigner = False, isWritable = True\<rparr>,
                   \<lparr>pubkey = SYSVAR_RENT_PUBKEY, isSigner = False, isWritable = False\<rparr>],
           data = length g\<rparr>"
    have r: "createInitializeMintInstruction mint decimals authority None h =
        Inr (?ix h, h @ [?p @ [0]])"
      using d createInitializeMint_result [of decimals mint authority None h] by simp
    have r': "createInitializeMintInstruction mint decimals authority (Some freeze) h' =
        Inr (?ix h', h' @ [?p @ 1 # toBuffer freeze])"
      using d createInitializeMint_result [of decimals mint authority "Some freeze" h'] by simp
    have q: "payload (?ix h, h @ [?p @ [0]]) = ?p @ [0]"
        "payload (?ix h', h' @ [?p @ 1 # toBuffer freeze]) = ?p @ 1 # toBuffer freeze"
      by (rule payload_last)+
    show "\<exists>r r'. createInitializeMintInstruction mint decimals authority None h = Inr r \<and>
         createInitializeMintInstruction mint decimals authority (Some freeze) h' = Inr r' \<and>
         length (payload r) = 35 \<and>
         length (payload r') = length (payload r) + 32 \<and>
         payload r ! 34 = 0 \<and> payload r' ! 34 = 1 \<and>
         take 34 (payload r') = take 34 (payload r) \<and>
         drop 35 (payload r') = toBuffer freeze \<and> length (toBuffer freeze) = 32"
      apply (rule exI [of _ "(?ix h, h @ [?p @ [0]])"])
      apply (rule exI [of _ "(?ix h', h' @ [?p @ 1 # toBuffer freeze])"])
      unfolding q using r r' p0 p1 length_toBuffer [of freeze] by blast
  qed
  have b: "\<forall>n g. length (snd (Buffer_alloc n g) ! fst (Buffer_alloc n g)) = n"
    by (simp add: Buffer_alloc_def)
  have c: "\<forall>buf v offset g g'. writeUInt8 buf v offset g = Inr g' \<longrightarrow>
      map length g' = map length g"
    using map_length_writeUInt8 by blast
  have d: "\<forall>source target targetStart g.
      map length (Buffer_copy source target targetStart g) = map length g"
    using map_length_Buffer_copy by blast
  have e: "\<forall>fr r. createInitializeMintInstruction mint decimals authority fr h = Inr r \<longrightarrow>
        data (fst r) = fst (Buffer_alloc (if fr = None then 35 else 67) h) \<and>
        map length (snd r) =
          map length (snd (Buffer_alloc (if fr = None then 35 else 67) h)) \<and>
        take (length h) (snd r) = h"
  proof (intro allI impI)
    fix fr r
    assume "createInitializeMintInstruction mint decimals authority fr h = Inr r"
    from createInitializeMint_Inr [OF this]
    have r: "data (fst r) = length h"
        "snd r = h @ [?p @ (case fr of None \<Rightarrow> [0] | Some k \<Rightarrow> 1 # toBuffer k)]"
      by simp_all
    have n: "length (?p @ (case fr of None \<Rightarrow> [0] | Some k \<Rightarrow> 1 # toBuffer k)) =
        (if fr = None then 35 else 67)"
      by (cases fr) (simp_all add: length_toBuffer)
    show "data (fst r) = fst (Buffer_alloc (if fr = None then 35 else 67) h) \<and>
        map length (snd r) =
          map length (snd (Buffer_alloc (if fr = None then 35 else 67) h)) \<and>
        take (length h) (snd r) = h"
      unfolding r Buffer_alloc_def using n by simp
  qed
  from a b c d e show ?thesis by (intro conjI)
qed


theorem freeze_authority_option_witness:
  "(\<exists>r r'. createInitializeMintInstruction 2 9 1 None [] = Inr r \<and>
       createInitializeMintInstruction 2 9 1 (Some 1) [] = Inr r' \<and>
       length (payload r) = 35 \<and> length (payload r') = 67 \<and>
       payload r ! 34 = 0 \<and> payload r' ! 34 = 1 \<and> drop 35 (payload r') = toBuffer 1)
   \<and> (\<exists>g'. writeUInt8 0 9 1 [[0, 0]] = Inr g' \<and> map length g' = [2])
   \<and> (\<exists>r. createInitializeMintInstruction 2 9 1 (Some 1) [[7]] = Inr r \<and>
        data (fst r) = 1 \<and> map length (snd r) = [1, 67] \<and> take 1 (snd r) = [[7]])"
proof -
  note t = freeze_authority_option [where decimals = 9 and mint = 2 and authority = 1
      and freeze = 1 and h = "[]" and h' = "[]"]
  note u = freeze_authority_option [where decimals = 9 and mint = 2 and authority = 1
      and freeze = 1 and h = "[[7]]" and h' = "[]"]
  have "(0::int) \<le> 9 \<and> (9::int) \<le> 255" by simp
  with t [THEN conjunct1] obtain r r' where
    r: "createInitializeMintInstruction 2 9 1 None [] = Inr r"
      "createInitializeMintInstruction 2 9 1 (Some 1) [] = Inr r'"
      "length (payload r) = 35" "length (payload r') = length (payload r) + 32"
      "payload r ! 34 = 0" "payload r' ! 34 = 1" "drop 35 (payload r') = toBuffer 1"
    by blast
  have a: "\<exists>r r'. createInitializeMintInstruction 2 9 1 None [] = Inr r \<and>
       createInitializeMintInstruction 2 9 1 (Some 1) [] = Inr r' \<and>
       length (payload r) = 35 \<and> length (payload r') = 67 \<and>
       payload r ! 34 = 0 \<and> payload r' ! 34 = 1 \<and> drop 35 (payload r') = toBuffer 1"
    using r by (intro exI [of _ r] exI [of _ r']) simp
  have w: "writeUInt8 0 9 1 [[0, 0]] = Inr [[0, 9]]"
    by (simp add: writeUInt8_def)
  from t [THEN conjunct2, THEN conjunct2, THEN conjunct1] w
  have "map length [[0, 9 :: byte]] = map length [[0, 0 :: byte]]"
    by blast
  with w have b: "\<exists>g'. writeUInt8 0 9 1 [[0, 0]] = Inr g' \<and> map length g' = [2]"
    by simp
  obtain q where q: "createInitializeMintInstruction 2 9 1 (Some 1) [[7]] = Inr q"
    by (simp add: createInitializeMint_result)
  from q u [THEN conjunct2, THEN conjunct2, THEN conjunct2, THEN conjunct2]
  have "data (fst q) = fst (Buffer_alloc (if Some (1::PublicKey) = None then 35 else 67) [[7]]) \<and>
      map length (snd q) =
        map length (snd (Buffer_alloc (if Some (1::PublicKey) = None then 35 else 67) [[7]])) \<and>
      take (length [[7::byte]]) (snd q) = [[7]]"
    by blast
  then have "data (fst q) = 1 \<and> map length (snd q) = [1, 67] \<and> take 1 (snd q) = [[7]]"
    by (simp add: Buffer_alloc_def)
  with q have c: "\<exists>r. createInitializeMintInstruction 2 9 1 (Some 1) [[7]] = Inr r \<and>
      data (fst r) = 1 \<and> map length (snd r) = [1, 67] \<and> take 1 (snd r) = [[7]]"
    by (intro exI [of _ q]) simp
  from a b c show ?thesis by (intro conjI)
qed

section \<open>Signers of a batch\<close>

text \<open>
  Claim C5. The required signers of a batch are the identities of the account references
  marked as signers in its instructions, each once. For an account allocation followed by
  a mint initialization they are exactly the payer and the new account: the account
  allocation marks both as signers and the mint initialization marks none.
\<close>

theorem required_signers_of_batch:
  "set (requiredSigners batch) =
      {pubkey k | k. \<exists>ix \<in> set batch. k \<in> set (keys ix) \<and> isSigner k}
   \<and> distinct (requiredSigners batch)
   \<and> (\<forall>r r'. createAccountInstruction payer newAccount lamports space owner h = Inr r \<and>
        createInitializeMintInstruction mint decimals authority freeze h' = Inr r' \<longrightarrow>
        set (requiredSigners [fst r, fst r']) = {payer, newAccount})"
proof -
  have a: "set (requiredSigners batch) =
      {pubkey k | k. \<exists>ix \<in> set batch. k \<in> set (keys ix) \<and> isSigner k}"
    by (auto simp add: requiredSigners_def)
  have b: "distinct (requiredSigners batch)"
    by (simp add: requiredSigners_def)
  have c: "\<forall>r r'. createAccountInstruction payer newAccount lamports space owner h = Inr r \<and>
        createInitializeMintInstruction mint decimals authority freeze h' = Inr r' \<longrightarrow>
        set (requiredSigners [fst r, fst r']) = {payer, newAccount}"
  proof (intro allI impI, elim conjE)
    fix r r'
    assume 1: "createAccountInstruction payer newAccount lamports space owner h = Inr r"
      and 2: "createInitializeMintInstruction mint decimals authority freeze h' = Inr r'"
    from createAccount_Inr [OF 1] have k1: "keys (fst r) =
        [\<lparr>pubkey = payer, isSigner = True, isWritable = True\<rparr>,
         \<lparr>pubkey = newAccount, isSigner = True, isWritable = True\<rparr>]"
      by simp
    from createInitializeMint_Inr [OF 2] have k2: "keys (fst r') =
        [\<lparr>pubkey = mint, isSigner = False, isWritable = True\<rparr>,
         \<lparr>pubkey = SYSVAR_RENT_PUBKEY, isSigner = False, isWritable = False\<rparr>]"
      by simp
    show "set (requiredSigners [fst r, fst r']) = {payer, newAccount}"
      by (simp add: requiredSigners_def k1 k2)
  qed
  from a b c show ?thesis by blast
qed

theorem required_signers_of_batch_witness:
  "\<exists>r r'. createAccountInstruction 1 2 1461600 82 TOKEN_PROGRAM_ID [] = Inr r \<and>
     createInitializeMintInstruction 2 9 1 None (snd r) = Inr r' \<and>
     set (requiredSigners [fst r, fst r']) = {1, 2}"
proof -
  obtain r where r: "createAccountInstruction 1 2 1461600 82 TOKEN_PROGRAM_ID [] = Inr r"
    by (simp add: createAccount_result)
  obtain r' where r': "createInitializeMintInstruction 2 9 1 None (snd r) = Inr r'"
    by (simp add: createInitializeMint_result)
  note t = required_signers_of_batch [where payer = 1 and newAccount = 2
      and lamports = 1461600 and space = 82 and owner = TOKEN_PROGRAM_ID and h = "[]"
      and mint = 2 and decimals = 9 and authority = 1 and freeze = None and h' = "snd r"
      and batch = "[fst r, fst r']"]
  from r r' t [THEN conjunct2, THEN conjunct2]
  have "set (requiredSigners [fst r, fst r']) = {1, 2}"
    by blast
  with r r' show ?thesis by blast
qed

section \<open>Constructors are functions of their arguments\<close>

text \<open>
  Claim C9. Two calls of a constructor with equal arguments, on whatever heaps, have the
  same outcome: the same error, or instructions with the same target program, the same
  account references and byte-for-byte equal payloads. A call changes no buffer that
  existed before it; it only adds its own payload buffer.
\<close>

theorem constructors_depend_on_arguments_only:
  "same_outcome (createAccountInstruction payer newAccount lamports space owner h)
      (createAccountInstruction payer newAccount lamports space owner h')
   \<and> allocates_only h (createAccountInstruction payer newAccount lamports space owner h)
   \<and> same_outcome (createInitializeMintInstruction mint decimals authority freeze h)
      (createInitializeMintInstruction mint decimals authority freeze h')
   \<and> allocates_only h (createInitializeMintInstruction mint decimals authority freeze h)
   \<and> same_outcome (createInitializeAccountInstruction tokenAccount mint walletOwner h)
      (createInitializeAccountInstruction tokenAccount mint walletOwner h')
   \<and> allocates_only h (createInitializeAccountInstruction tokenAccount mint walletOwner h)
   \<and> same_outcome (createMintToInstruction mint dest authority amount h)
      (createMintToInstruction mint dest authority amount h')
   \<and> allocates_only h (createMintToInstruction mint dest authority amount h)
   \<and> same_outcome (createTransferInstruction src dest walletOwner amount h)
      (createTransferInstruction src dest walletOwner amount h')
   \<and> allocates_only h (createTransferInstruction src dest walletOwner amount h)"
proof -
  have a: "same_outcome (createAccountInstruction payer newAccount lamports space owner h)
      (createAccountInstruction payer newAccount lamports space owner h')
   \<and> allocates_only h (createAccountInstruction payer newAccount lamports space owner h)"
  proof (cases "0 \<le> lamports \<and> lamports < 2 ^ 64 \<and> 0 \<le> space \<and> space < 2 ^ 64")
    case True
    then show ?thesis
      by (simp add: createAccount_result same_outcome_def allocates_only_def payload_last)
  next
    case False
    then have "lamports < 0 \<or> 2 ^ 64 \<le> lamports \<or> space < 0 \<or> 2 ^ 64 \<le> space" by auto
    then show ?thesis
      by (simp add: createAccount_error same_outcome_def allocates_only_def)
  qed
  have b: "same_outcome (createInitializeMintInstruction mint decimals authority freeze h)
      (createInitializeMintInstruction mint decimals authority freeze h')
   \<and> allocates_only h (createInitializeMintInstruction mint decimals authority freeze h)"
  proof (cases "0 \<le> decimals \<and> decimals \<le> 255")
    case True
    then show ?thesis
      by (simp add: createInitializeMint_result same_outcome_def allocates_only_def
          payload_last)
  next
    case False
    then have "decimals < 0 \<or> 255 < decimals" by auto
    then show ?thesis
      by (simp add: createInitializeMint_error same_outcome_def allocates_only_def)
  qed
  have c: "same_outcome (createInitializeAccountInstruction tokenAccount mint walletOwner h)
      (createInitializeAccountInstruction tokenAccount mint walletOwner h')
   \<and> allocates_only h (createInitializeAccountInstruction tokenAccount mint walletOwner h)"
    by (simp add: createInitializeAccount_result same_outcome_def allocates_only_def
        payload_last)
  have d: "same_outcome (createMintToInstruction mint dest authority amount h)
      (createMintToInstruction mint dest authority amount h')
   \<and> allocates_only h (createMintToInstruction mint dest authority amount h)
   \<and> same_outcome (createTransferInstruction src dest walletOwner amount h)
      (createTransferInstruction src dest walletOwner amount h')
   \<and> allocates_only h (createTransferInstruction src dest walletOwner amount h)"
  proof (cases "0 \<le> amount \<and> amount < 2 ^ 64")
    case True
    then show ?thesis
      by (simp add: createMintTo_result createTransfer_result same_outcome_def
          allocates_only_def payload_last)
  next
    case False
    then have "amount < 0 \<or> 2 ^ 64 \<le> amount" by auto
    then show ?thesis
      by (simp add: createMintTo_error createTransfer_error same_outcome_def
          allocates_only_def)
  qed
  from a b c d show ?thesis by blast
qed

theorem constructors_depend_on_arguments_only_witness:
  "same_outcome (createMintToInstruction 2 3 1 10000000000 [])
      (createMintToInstruction 2 3 1 10000000000 [[1, 2]])
   \<and> allocates_only [[1, 2]] (createMintToInstruction 2 3 1 10000000000 [[1, 2]])
   \<and> same_outcome (createTransferInstruction 3 3 1 (- 1) [])
      (createTransferInstruction 3 3 1 (- 1) [[1, 2]])"
proof -
  note t = constructors_depend_on_arguments_only [where payer = 1 and newAccount = 2
      and lamports = 1461600 and space = 82 and owner = TOKEN_PROGRAM_ID and mint = 2
      and decimals = 9 and authority = 1 and freeze = None and tokenAccount = 3
      and walletOwner = 1 and dest = 3 and src = 3]
  from t [where amount = 10000000000 and h = "[]" and h' = "[[1, 2]]"]
  have a: "same_outcome (createMintToInstruction 2 3 1 10000000000 [])
      (createMintToInstruction 2 3 1 10000000000 [[1, 2]])"
    by blast
  from t [where amount = 10000000000 and h = "[[1, 2]]" and h' = "[]"]
  have b: "allocates_only [[1, 2]] (createMintToInstruction 2 3 1 10000000000 [[1, 2]])"
    by blast
  from t [where amount = "- 1" and h = "[]" and h' = "[[1, 2]]"]
  have c: "same_outcome (createTransferInstruction 3 3 1 (- 1) [])
      (createTransferInstruction 3 3 1 (- 1) [[1, 2]])"
    by blast
  from a b c show ?thesis by blast
qed

end
